theory Spec2Isabelle
  imports Complex_Main
begin

section \<open>PriceWise (M5): the price-decision engine of app.py\<close>

text \<open>
  The development embeds the three functions of \<^verbatim>\<open>src/app.py\<close> that make up the
  decision engine: \<^verbatim>\<open>expected_qty\<close>, \<^verbatim>\<open>expected_revenue\<close> and
  \<^verbatim>\<open>choose_price\<close>.

  Numbers. Python floats are idealised as real numbers (exact arithmetic): rounding
  and overflow of the arithmetic are outside the model. Two operations of the source are
  partial on the reals, and each is modelled by what it does there:
  \<^verbatim>\<open>math.log\<close> raises \<^verbatim>\<open>ValueError\<close> on a non-positive argument, and
  \<^verbatim>\<open>np.sqrt\<close> returns \<^verbatim>\<open>nan\<close> on a negative one, without raising. The \<^verbatim>\<open>nan\<close>
  then flows through \<^verbatim>\<open>alpha * sigma\<close> and \<^verbatim>\<open>er + alpha * sigma\<close> into the scores and
  into \<^verbatim>\<open>np.argmax\<close>, so a score is a \<open>pyfloat\<close>: a real or \<open>NaN\<close>.
  \<^verbatim>\<open>float(str)\<close> reads the spellings of infinity and nan without raising, so the
  guardrail it returns is a \<open>strfloat\<close>: a real, an infinity or nan.

  Strings. \<^verbatim>\<open>min_margin\<close> is the one string whose characters the code looks at
  (\<^verbatim>\<open>strip\<close>): it is the list of its Unicode code points. The other strings are only
  tested for emptiness, compared and concatenated, and are byte strings.

  Collaborators. The unpickled artifact (the fitted encoder, the price grids, the fitted
  regression pipeline) and Python's \<^verbatim>\<open>float(str)\<close> are not code of the repository:
  they are parameters of the model, total functions on their inputs.

  Effects. \<^verbatim>\<open>choose_price\<close> either returns its four outputs or raises. Raising is the
  \<open>Inl\<close> of a sum type. The calls made to the demand predictor are recorded in a trace
  that every function takes and returns extended.
\<close>

subsection \<open>Floats with nan\<close>

datatype pyfloat = NaN | Fin real

fun fl_add :: "pyfloat \<Rightarrow> pyfloat \<Rightarrow> pyfloat" where
  "fl_add (Fin a) (Fin b) = Fin (a + b)"
| "fl_add _ _ = NaN"

fun fl_mul :: "pyfloat \<Rightarrow> pyfloat \<Rightarrow> pyfloat" where
  "fl_mul (Fin a) (Fin b) = Fin (a * b)"
| "fl_mul _ _ = NaN"

text \<open>The comparison \<^verbatim>\<open>a <= b\<close> of IEEE floats: false as soon as one side is nan.\<close>

fun fl_le :: "pyfloat \<Rightarrow> pyfloat \<Rightarrow> bool" where
  "fl_le (Fin a) (Fin b) = (a \<le> b)"
| "fl_le _ _ = False"

text \<open>\<^verbatim>\<open>np.sqrt\<close> on a float: nan (and a warning, no exception) below zero.\<close>

definition np_sqrt :: "real \<Rightarrow> pyfloat" where
  "np_sqrt x = (if x < 0 then NaN else Fin (sqrt x))"

text \<open>
  What \<^verbatim>\<open>float(str)\<close> returns where it does not raise: a number, or the value of one
  of the spellings \<^verbatim>\<open>inf\<close>, \<^verbatim>\<open>-inf\<close>, \<^verbatim>\<open>nan\<close> (or of a literal too large for
  a float, which reads as an infinity).
\<close>

datatype strfloat = FNum real | FInf | FNegInf | FNan

text \<open>The comparison \<^verbatim>\<open>p < mm\<close> of a price with such a value, as IEEE floats compare.\<close>

fun price_below :: "real \<Rightarrow> strfloat \<Rightarrow> bool" where
  "price_below p (FNum m) = (p < m)"
| "price_below p FInf = True"
| "price_below p FNegInf = False"
| "price_below p FNan = False"

subsection \<open>Exceptions\<close>

datatype py_error =
    MathDomainError     \<comment> \<open>ValueError: math domain error, from math.log\<close>
  | ArgmaxOfEmpty       \<comment> \<open>ValueError: attempt to get argmax of an empty sequence\<close>
  | IndexError          \<comment> \<open>list index out of range\<close>

subsection \<open>\<^verbatim>\<open>np.argmax\<close> on a list of floats\<close>

text \<open>
  numpy scans the array once, keeping the running maximum \<open>mp\<close> and its index:
  \<^verbatim>\<open>
  mp = ip[0]; max_ind = 0
  if isnan(mp): return 0
  for i in 1 .. n-1:
      if not (ip[i] <= mp):
          mp = ip[i]; max_ind = i
          if isnan(mp): break
  return max_ind
  \<close>
  so the first occurrence of the maximum wins, and the first nan wins over everything.
  An empty sequence raises \<^verbatim>\<open>ValueError\<close>.
\<close>

fun argmax_loop :: "pyfloat \<Rightarrow> nat \<Rightarrow> nat \<Rightarrow> pyfloat list \<Rightarrow> nat" where
  "argmax_loop mp max_ind i [] = max_ind"
| "argmax_loop mp max_ind i (x # xs) =
     (if fl_le x mp then argmax_loop mp max_ind (Suc i) xs
      else if x = NaN then i
      else argmax_loop x i (Suc i) xs)"

definition np_argmax :: "pyfloat list \<Rightarrow> py_error + nat" where
  "np_argmax xs =
     (case xs of
        [] \<Rightarrow> Inl ArgmaxOfEmpty
      | x # rest \<Rightarrow> if x = NaN then Inr 0 else Inr (argmax_loop x 0 1 rest))"

subsection \<open>\<^verbatim>\<open>str.strip()\<close>\<close>

text \<open>
  A Python \<^verbatim>\<open>str\<close> as the list of its Unicode code points, and the code points of an
  ASCII literal.
\<close>

type_synonym pystr = "nat list"

definition codepoints :: "string \<Rightarrow> pystr" where
  "codepoints s = map of_char s"

text \<open>
  The characters \<^verbatim>\<open>str.strip()\<close> removes when called without argument, the
  whitespace of \<^verbatim>\<open>str.isspace\<close>: U+0009 to U+000D, U+001C to U+0020, U+0085, U+00A0,
  U+1680, U+2000 to U+200A, U+2028, U+2029, U+202F, U+205F and U+3000.
\<close>

definition is_space :: "nat \<Rightarrow> bool" where
  "is_space c \<longleftrightarrow>
     (0x09 \<le> c \<and> c \<le> 0x0D) \<or> (0x1C \<le> c \<and> c \<le> 0x20) \<or> c = 0x85 \<or> c = 0xA0 \<or>
     c = 0x1680 \<or> (0x2000 \<le> c \<and> c \<le> 0x200A) \<or> c = 0x2028 \<or> c = 0x2029 \<or>
     c = 0x202F \<or> c = 0x205F \<or> c = 0x3000"

definition strip :: "pystr \<Rightarrow> pystr" where
  "strip s = rev (dropWhile is_space (rev (dropWhile is_space s)))"

subsection \<open>The artifact and the data of a request\<close>

text \<open>The feature row \<^verbatim>\<open>expected_qty\<close> hands to the regression pipeline.\<close>

record feature_row =
  log_price :: real
  weekday :: string
  month :: int
  is_event :: int
  item_id :: string

text \<open>The context row \<^verbatim>\<open>choose_price\<close> hands to the encoder.\<close>

record context_row =
  ctx_weekday :: string
  ctx_month :: int
  ctx_is_event :: int

text \<open>
  The loaded \<^verbatim>\<open>blob\<close>: \<open>onehot\<close> is \<^verbatim>\<open>enc.transform\<close> (the entries of the encoded
  matrix, as a list), \<open>price_grid\<close> the dict from item to its list of prices,
  \<open>model_pipe\<close> is \<^verbatim>\<open>model_pipe.predict(...)[0]\<close>, the prediction of log(1 + qty).
\<close>

record artifact =
  onehot :: "context_row \<Rightarrow> real list"
  price_grid :: "string \<Rightarrow> real list option"
  model_pipe :: "feature_row \<Rightarrow> real"

text \<open>One \<^verbatim>\<open>dict(price=..., exp_qty=..., exp_rev=..., ucb=...)\<close> of \<^verbatim>\<open>rows\<close>.\<close>

record cand_row =
  price :: real
  exp_qty :: real
  exp_rev :: real
  ucb :: pyfloat

text \<open>
  The trace of predictor calls: an entry for each entry into \<^verbatim>\<open>expected_revenue\<close> and
  \<^verbatim>\<open>expected_qty\<close> (with the arguments) and for each \<^verbatim>\<open>model_pipe.predict\<close>.
\<close>

datatype call =
    Call_expected_revenue string string int int real
  | Call_expected_qty string string int int real
  | Call_predict feature_row

text \<open>
  What a returning \<^verbatim>\<open>choose_price\<close> computed on the main path: the fields of the JSON
  (\<open>grid\<close>, \<open>chosen_price\<close>, \<open>arm_index\<close>, \<open>scores_ucb\<close>), the list \<^verbatim>\<open>rows\<close> in the
  order it was built (the returned table is \<^verbatim>\<open>rows\<close> sorted by price), \<^verbatim>\<open>best_row\<close>,
  and the three values the summary depends on: \<^verbatim>\<open>penalized\<close>, \<^verbatim>\<open>mm\<close> and \<^verbatim>\<open>alpha\<close>.
  The rendering of these values as JSON and Markdown text is not modelled.
\<close>

record decision =
  grid :: "real list"
  chosen_price :: real
  arm_index :: nat
  scores_ucb :: "pyfloat list"
  rows :: "cand_row list"
  best_row :: cand_row
  penalized :: bool
  guardrail :: "strfloat option"
  alpha :: real

text \<open>
  The value \<^verbatim>\<open>choose_price\<close> returns. \<open>Rejected msg\<close> is an early return
  \<^verbatim>\<open>(gr.update(value=""), pd.DataFrame(), msg, "")\<close>: empty JSON, empty table, empty
  summary, and the message as the note.
\<close>

datatype outcome = Rejected string | Decision decision

subsection \<open>The helper functions\<close>

definition expected_qty ::
  "artifact \<Rightarrow> string \<Rightarrow> string \<Rightarrow> int \<Rightarrow> int \<Rightarrow> real \<Rightarrow> call list
     \<Rightarrow> (py_error + real) \<times> call list" where
  "expected_qty art iid wd mo ev trial_price tr =
     (let tr1 = tr @ [Call_expected_qty iid wd mo ev trial_price] in
      if trial_price \<le> 0 then (Inl MathDomainError, tr1)
      else
        let row = \<lparr>log_price = ln trial_price, weekday = wd, month = mo,
                   is_event = ev, item_id = iid\<rparr>;
            mu = model_pipe art row
        in (Inr (max 0 (exp mu - 1)), tr1 @ [Call_predict row]))"

definition expected_revenue ::
  "artifact \<Rightarrow> string \<Rightarrow> string \<Rightarrow> int \<Rightarrow> int \<Rightarrow> real \<Rightarrow> call list
     \<Rightarrow> (py_error + real) \<times> call list" where
  "expected_revenue art iid wd mo ev trial_price tr =
     (case expected_qty art iid wd mo ev trial_price
             (tr @ [Call_expected_revenue iid wd mo ev trial_price]) of
        (Inl e, tr') \<Rightarrow> (Inl e, tr')
      | (Inr q, tr') \<Rightarrow> (Inr (trial_price * q), tr'))"

subsection \<open>\<^verbatim>\<open>choose_price\<close>\<close>

text \<open>\<^verbatim>\<open>price_grid.get(item_id, [])\<close>\<close>

definition grid_of :: "artifact \<Rightarrow> string \<Rightarrow> real list" where
  "grid_of art iid = (case price_grid art iid of None \<Rightarrow> [] | Some g \<Rightarrow> g)"

text \<open>
  Lines 71 to 78, the optional guardrail. \<open>py_float\<close> is \<^verbatim>\<open>float(str)\<close>, \<open>None\<close> where
  it raises. The result is \<open>None\<close> where the \<^verbatim>\<open>except\<close> branch returns, and \<open>Some mm\<close>
  otherwise, \<open>mm\<close> being Python's \<^verbatim>\<open>mm\<close> (\<open>None\<close> or a float).
\<close>

definition parse_min_margin ::
  "(pystr \<Rightarrow> strfloat option) \<Rightarrow> pystr option \<Rightarrow> strfloat option option" where
  "parse_min_margin py_float min_margin =
     (case map_option strip min_margin of
        None \<Rightarrow> Some None
      | Some s \<Rightarrow>
          if s \<notin> {codepoints '''', codepoints '' ''} then
            (case py_float s of
               Some x \<Rightarrow> Some (Some x)
             | None \<Rightarrow> None)
          else Some None)"

text \<open>The test of line 88: \<^verbatim>\<open>mm is not None and p < mm\<close>.\<close>

definition is_blocked :: "strfloat option \<Rightarrow> real \<Rightarrow> bool" where
  "is_blocked mm p = (case mm of None \<Rightarrow> False | Some v \<Rightarrow> price_below p v)"

text \<open>
  The loop of lines 87 to 97 over the remaining prices, with the lists \<^verbatim>\<open>rows\<close> and
  \<^verbatim>\<open>scores\<close> and the flag \<^verbatim>\<open>penalized\<close> as they stand. An exception of
  \<^verbatim>\<open>expected_revenue\<close> or \<^verbatim>\<open>expected_qty\<close> leaves the loop.
\<close>

fun score_loop ::
  "artifact \<Rightarrow> string \<Rightarrow> string \<Rightarrow> int \<Rightarrow> int \<Rightarrow> strfloat option \<Rightarrow> real \<Rightarrow> pyfloat
     \<Rightarrow> real list \<Rightarrow> cand_row list \<Rightarrow> pyfloat list \<Rightarrow> bool \<Rightarrow> call list
     \<Rightarrow> (py_error + cand_row list \<times> pyfloat list \<times> bool) \<times> call list" where
  "score_loop art iid wd mo ev mm al sigma [] rws scores pen tr =
     (Inr (rws, scores, pen), tr)"
| "score_loop art iid wd mo ev mm al sigma (p # ps) rws scores pen tr =
     (if is_blocked mm p then
        score_loop art iid wd mo ev mm al sigma ps
          (rws @ [\<lparr>price = p, exp_qty = 0, exp_rev = - 1000000000,
                    ucb = Fin (- 1000000000)\<rparr>])
          (scores @ [Fin (- 1000000000)]) True tr
      else
        (case expected_revenue art iid wd mo ev p tr of
           (Inl e, tr1) \<Rightarrow> (Inl e, tr1)
         | (Inr er, tr1) \<Rightarrow>
             (case expected_qty art iid wd mo ev p tr1 of
                (Inl e, tr2) \<Rightarrow> (Inl e, tr2)
              | (Inr qty, tr2) \<Rightarrow>
                  (let u = fl_add (Fin er) (fl_mul (Fin al) sigma) in
                   score_loop art iid wd mo ev mm al sigma ps
                     (rws @ [\<lparr>price = p, exp_qty = qty, exp_rev = er, ucb = u\<rparr>])
                     (scores @ [u]) pen tr2))))"

definition choose_price ::
  "artifact \<Rightarrow> (pystr \<Rightarrow> strfloat option) \<Rightarrow> string option \<Rightarrow> string \<Rightarrow> int \<Rightarrow> bool
     \<Rightarrow> pystr option \<Rightarrow> bool \<Rightarrow> call list \<Rightarrow> (py_error + outcome) \<times> call list" where
  "choose_price art py_float item wd mo ev min_margin explore tr =
     (case item of
        None \<Rightarrow> (Inr (Rejected ''Pick an item_id.''), tr)
      | Some iid \<Rightarrow>
          if iid = [] then (Inr (Rejected ''Pick an item_id.''), tr)
          else
            let g = grid_of art iid in
            if g = [] \<or> length g < 2 then
              (Inr (Rejected (''No usable price grid for '' @ iid @ ''.'')), tr)
            else
              (case parse_min_margin py_float min_margin of
                 None \<Rightarrow> (Inr (Rejected ''min_margin must be numeric.''), tr)
               | Some mm \<Rightarrow>
                   let X = onehot art \<lparr>ctx_weekday = wd, ctx_month = mo,
                                        ctx_is_event = of_bool ev\<rparr>;
                       sigma = np_sqrt (sum_list (map (\<lambda>x. x * (1 - x)) X));
                       al = (if explore then 0.8 else 0.0)
                   in
                   (case score_loop art iid wd mo (of_bool ev) mm al sigma g [] [] False tr of
                      (Inl e, tr') \<Rightarrow> (Inl e, tr')
                    | (Inr (rws, scores, pen), tr') \<Rightarrow>
                        (case np_argmax scores of
                           Inl e \<Rightarrow> (Inl e, tr')
                         | Inr best_idx \<Rightarrow>
                             if best_idx < length g then
                               (let best_price = g ! best_idx in
                                case filter (\<lambda>r. price r = best_price) rws of
                                  [] \<Rightarrow> (Inl IndexError, tr')
                                | b # _ \<Rightarrow>
                                    (Inr (Decision
                                       \<lparr>grid = g, chosen_price = best_price,
                                        arm_index = best_idx, scores_ucb = scores,
                                        rows = rws, best_row = b, penalized = pen,
                                        guardrail = mm, alpha = al\<rparr>), tr'))
                             else (Inl IndexError, tr')))))"

subsection \<open>Closed forms and predicates for the statements\<close>

text \<open>
  The value \<^verbatim>\<open>expected_qty\<close> returns on a positive price, and the row the loop appends
  for a price: the closed forms the loop is proved to compute.
\<close>

definition qty_val :: "artifact \<Rightarrow> string \<Rightarrow> string \<Rightarrow> int \<Rightarrow> int \<Rightarrow> real \<Rightarrow> real" where
  "qty_val art iid wd mo ev p =
     max 0 (exp (model_pipe art \<lparr>log_price = ln p, weekday = wd, month = mo,
                                 is_event = ev, item_id = iid\<rparr>) - 1)"

definition row_of ::
  "artifact \<Rightarrow> string \<Rightarrow> string \<Rightarrow> int \<Rightarrow> int \<Rightarrow> strfloat option \<Rightarrow> real \<Rightarrow> pyfloat \<Rightarrow> real \<Rightarrow> cand_row" where
  "row_of art iid wd mo ev mm al sigma p =
     (if is_blocked mm p then
        \<lparr>price = p, exp_qty = 0, exp_rev = - 1000000000, ucb = Fin (- 1000000000)\<rparr>
      else
        \<lparr>price = p, exp_qty = qty_val art iid wd mo ev p,
         exp_rev = p * qty_val art iid wd mo ev p,
         ucb = fl_add (Fin (p * qty_val art iid wd mo ev p)) (fl_mul (Fin al) sigma)\<rparr>)"

text \<open>
  The order in which \<^verbatim>\<open>np.argmax\<close> takes its maximum: on reals it is \<open>\<le>\<close>, and nan
  is above everything (numpy's maximum propagates nan). \<open>first_max xs k\<close> says that \<open>k\<close>
  is the first index at which \<open>xs\<close> attains its maximum.
\<close>

definition score_le :: "pyfloat \<Rightarrow> pyfloat \<Rightarrow> bool" where
  "score_le a b = (case b of NaN \<Rightarrow> True | Fin y \<Rightarrow> (case a of NaN \<Rightarrow> False | Fin x \<Rightarrow> x \<le> y))"

definition first_max :: "pyfloat list \<Rightarrow> nat \<Rightarrow> bool" where
  "first_max xs k \<longleftrightarrow>
     k < length xs \<and> (\<forall>j<length xs. score_le (xs ! j) (xs ! k)) \<and>
     (\<forall>j<k. \<not> score_le (xs ! k) (xs ! j))"

text \<open>
  The dispersion of lines 81 and 82 and the weight of line 83, as \<^verbatim>\<open>choose_price\<close>
  computes them from the context and the exploration flag.
\<close>

definition sigma_of :: "artifact \<Rightarrow> string \<Rightarrow> int \<Rightarrow> bool \<Rightarrow> pyfloat" where
  "sigma_of art wd mo ev =
     np_sqrt (sum_list (map (\<lambda>x. x * (1 - x))
       (onehot art \<lparr>ctx_weekday = wd, ctx_month = mo, ctx_is_event = of_bool ev\<rparr>)))"

definition alpha_of :: "bool \<Rightarrow> real" where
  "alpha_of explore = (if explore then 0.8 else 0.0)"

text \<open>
  All three preconditions of \<^verbatim>\<open>choose_price\<close> pass: the request names an item \<open>iid\<close>,
  the item's grid \<open>g\<close> has at least two entries, and the guardrail input is absent
  (\<open>mm = None\<close>) or is read by \<^verbatim>\<open>float\<close> as the value \<open>v\<close> (\<open>mm = Some v\<close>).
\<close>

definition preconditions_pass ::
  "artifact \<Rightarrow> (pystr \<Rightarrow> strfloat option) \<Rightarrow> string option \<Rightarrow> pystr option
     \<Rightarrow> string \<Rightarrow> real list \<Rightarrow> strfloat option \<Rightarrow> bool" where
  "preconditions_pass art py_float item min_margin iid g mm \<longleftrightarrow>
     item = Some iid \<and> iid \<noteq> [] \<and> grid_of art iid = g \<and> 2 \<le> length g \<and>
     parse_min_margin py_float min_margin = Some mm"

subsection \<open>A test fixture\<close>

text \<open>
  The fixture of the scenarios: item FOODS_1_001 with the grid 2.00, 2.50, 3.00, a mock
  predictor under which the expected quantities at these prices are 10, 8 and 5 (so the
  revenues are 20, 20 and 15), an encoder whose four entries are all one half (so the
  dispersion is 1), and a \<^verbatim>\<open>float\<close> that reads the strings the scenarios use:
  2.75 and 5 as numbers and, as Python does, nan as nan and inf as infinity; on every
  other string it raises.
  Two more items have the grids 2.00, 2.00 and 2.00.
\<close>

definition demo_predict :: "feature_row \<Rightarrow> real" where
  "demo_predict r =
     (if log_price r < ln (9 / 4) then ln 11
      else if log_price r < ln (11 / 4) then ln 9
      else ln 6)"

definition demo_grids :: "string \<Rightarrow> real list option" where
  "demo_grids k =
     (if k = ''FOODS_1_001'' then Some [2, 5 / 2, 3]
      else if k = ''FOODS_1_002'' then Some [2, 2]
      else if k = ''FOODS_1_003'' then Some [2]
      else None)"

definition demo_art :: artifact where
  "demo_art = \<lparr>onehot = (\<lambda>c. [1 / 2, 1 / 2, 1 / 2, 1 / 2]), price_grid = demo_grids,
                model_pipe = demo_predict\<rparr>"

definition demo_float :: "pystr \<Rightarrow> strfloat option" where
  "demo_float s =
     (if s = codepoints ''2.75'' then Some (FNum (11 / 4))
      else if s = codepoints ''5'' then Some (FNum 5)
      else if s = codepoints ''nan'' then Some FNan
      else if s = codepoints ''inf'' then Some FInf
      else None)"

section \<open>Lemmas\<close>

subsection \<open>The helper functions and the loop\<close>

lemma fst_expected_qty:
  "fst (expected_qty art iid wd mo ev p tr) =
     (if p \<le> 0 then Inl MathDomainError else Inr (qty_val art iid wd mo ev p))"
  by (simp add: expected_qty_def qty_val_def Let_def)

lemma fst_expected_revenue:
  "fst (expected_revenue art iid wd mo ev p tr) =
     (if p \<le> 0 then Inl MathDomainError else Inr (p * qty_val art iid wd mo ev p))"
  by (simp add: expected_revenue_def expected_qty_def qty_val_def Let_def)

lemma score_loop_ok:
  assumes "\<forall>p\<in>set ps. \<not> is_blocked mm p \<longrightarrow> 0 < p"
  shows "fst (score_loop art iid wd mo ev mm al sigma ps rws scores pen tr) =
           Inr (rws @ map (row_of art iid wd mo ev mm al sigma) ps,
                scores @ map (\<lambda>p. ucb (row_of art iid wd mo ev mm al sigma p)) ps,
                pen \<or> (\<exists>p\<in>set ps. is_blocked mm p))"
  using assms
proof (induction ps arbitrary: rws scores pen tr)
  case Nil
  then show ?case by simp
next
  case (Cons p ps)
  show ?case
  proof (cases "is_blocked mm p")
    case True
    with Cons show ?thesis by (simp add: row_of_def)
  next
    case False
    with Cons.prems have pos: "0 < p" by simp
    obtain tr1 where r: "expected_revenue art iid wd mo ev p tr = (Inr (p * qty_val art iid wd mo ev p), tr1)"
      using fst_expected_revenue [of art iid wd mo ev p tr] pos
      by (cases "expected_revenue art iid wd mo ev p tr") simp
    obtain tr2 where q: "expected_qty art iid wd mo ev p tr1 = (Inr (qty_val art iid wd mo ev p), tr2)"
      using fst_expected_qty [of art iid wd mo ev p tr1] pos
      by (cases "expected_qty art iid wd mo ev p tr1") simp
    from Cons.prems have "\<forall>p\<in>set ps. \<not> is_blocked mm p \<longrightarrow> 0 < p" by simp
    from Cons.IH [OF this] False r q show ?thesis
      by (simp add: row_of_def Let_def)
  qed
qed

lemma score_loop_raises:
  assumes "\<exists>p\<in>set ps. \<not> is_blocked mm p \<and> p \<le> 0"
  shows "fst (score_loop art iid wd mo ev mm al sigma ps rws scores pen tr) = Inl MathDomainError"
  using assms
proof (induction ps arbitrary: rws scores pen tr)
  case Nil
  then show ?case by simp
next
  case (Cons p ps)
  show ?case
  proof (cases "is_blocked mm p")
    case True
    with Cons show ?thesis by simp
  next
    case False
    show ?thesis
    proof (cases "p \<le> 0")
      case True
      obtain tr1 where r: "expected_revenue art iid wd mo ev p tr = (Inl MathDomainError, tr1)"
        using fst_expected_revenue [of art iid wd mo ev p tr] True
        by (cases "expected_revenue art iid wd mo ev p tr") simp
      with False show ?thesis by simp
    next
      case pos: False
      obtain tr1 where r: "expected_revenue art iid wd mo ev p tr = (Inr (p * qty_val art iid wd mo ev p), tr1)"
        using fst_expected_revenue [of art iid wd mo ev p tr] pos
        by (cases "expected_revenue art iid wd mo ev p tr") simp
      obtain tr2 where q: "expected_qty art iid wd mo ev p tr1 = (Inr (qty_val art iid wd mo ev p), tr2)"
        using fst_expected_qty [of art iid wd mo ev p tr1] pos
        by (cases "expected_qty art iid wd mo ev p tr1") simp
      from Cons.prems pos have "\<exists>p\<in>set ps. \<not> is_blocked mm p \<and> p \<le> 0" by auto
      from Cons.IH [OF this] False r q show ?thesis
        by (simp add: Let_def)
    qed
  qed
qed

lemma score_loop_no_calls:
  assumes "\<forall>p\<in>set ps. is_blocked mm p"
  shows "snd (score_loop art iid wd mo ev mm al sigma ps rws scores pen tr) = tr"
  using assms by (induction ps arbitrary: rws scores pen) simp_all

subsection \<open>\<^verbatim>\<open>np.argmax\<close> returns the first maximum\<close>

lemma score_le_simps [simp]:
  "score_le a NaN" "score_le NaN (Fin y) = False" "score_le (Fin x) (Fin y) = (x \<le> y)"
  by (simp_all add: score_le_def)

lemma score_le_refl [simp]: "score_le x x"
  by (cases x) simp_all

lemma first_max_unique:
  assumes "first_max xs k" and "first_max xs k'"
  shows "k = k'"
proof (rule ccontr)
  assume "k \<noteq> k'"
  then consider "k < k'" | "k' < k" by linarith
  then show False
  proof cases
    case 1
    with assms show ?thesis unfolding first_max_def by blast
  next
    case 2
    with assms show ?thesis unfolding first_max_def by blast
  qed
qed

lemma first_max_snoc_keep:
  assumes "first_max pre k" and "score_le x (pre ! k)"
  shows "first_max (pre @ [x]) k"
  using assms unfolding first_max_def
  by (auto simp: nth_append less_Suc_eq)

lemma first_max_snoc_new:
  assumes "\<forall>j<length pre. \<not> score_le x (pre ! j)" and "\<forall>j<length pre. score_le (pre ! j) x"
  shows "first_max (pre @ [x]) (length pre)"
  using assms unfolding first_max_def
  by (auto simp: nth_append less_Suc_eq)

lemma argmax_loop_first_max:
  assumes "first_max pre k" and "pre ! k = Fin m"
  shows "first_max (pre @ xs) (argmax_loop (Fin m) k (length pre) xs)"
  using assms
proof (induction xs arbitrary: pre k m)
  case Nil
  then show ?case by simp
next
  case (Cons x xs)
  have bound: "\<forall>j<length pre. score_le (pre ! j) (Fin m)"
    using Cons.prems unfolding first_max_def by auto
  show ?case
  proof (cases x)
    case NaN
    have "first_max (pre @ NaN # xs) (length pre)"
      unfolding first_max_def
    proof (intro conjI allI impI)
      fix j assume "j < length pre"
      with bound have "score_le (pre ! j) (Fin m)" by simp
      then have "pre ! j \<noteq> NaN" by (cases "pre ! j") auto
      then show "\<not> score_le ((pre @ NaN # xs) ! length pre) ((pre @ NaN # xs) ! j)"
        using \<open>j < length pre\<close> by (cases "pre ! j") (auto simp: nth_append)
    qed (simp_all add: nth_append)
    with NaN show ?thesis by simp
  next
    case (Fin a)
    show ?thesis
    proof (cases "a \<le> m")
      case True
      have "first_max (pre @ [x]) k"
        using Cons.prems Fin True by (intro first_max_snoc_keep) simp_all
      moreover have "(pre @ [x]) ! k = Fin m"
        using Cons.prems unfolding first_max_def by (simp add: nth_append)
      ultimately have "first_max ((pre @ [x]) @ xs) (argmax_loop (Fin m) k (length (pre @ [x])) xs)"
        by (rule Cons.IH)
      with Fin True show ?thesis by simp
    next
      case False
      have lt: "\<forall>j<length pre. \<not> score_le x (pre ! j)"
      proof (intro allI impI)
        fix j assume "j < length pre"
        with bound have "score_le (pre ! j) (Fin m)" by simp
        with False Fin show "\<not> score_le x (pre ! j)" by (cases "pre ! j") auto
      qed
      have le: "\<forall>j<length pre. score_le (pre ! j) x"
      proof (intro allI impI)
        fix j assume "j < length pre"
        with bound have "score_le (pre ! j) (Fin m)" by simp
        with False Fin show "score_le (pre ! j) x" by (cases "pre ! j") auto
      qed
      have "first_max (pre @ [x]) (length pre)"
        using lt le by (rule first_max_snoc_new)
      moreover have "(pre @ [x]) ! length pre = Fin a"
        using Fin by simp
      ultimately have "first_max ((pre @ [x]) @ xs) (argmax_loop (Fin a) (length pre) (length (pre @ [x])) xs)"
        by (rule Cons.IH)
      with Fin False show ?thesis by simp
    qed
  qed
qed

lemma np_argmax_first_max:
  assumes "xs \<noteq> []"
  shows "\<exists>k. np_argmax xs = Inr k \<and> first_max xs k"
proof -
  from assms obtain x rest where xs: "xs = x # rest" by (cases xs) auto
  show ?thesis
  proof (cases x)
    case NaN
    with xs show ?thesis by (simp add: np_argmax_def first_max_def)
  next
    case (Fin m)
    have "first_max [x] 0" using Fin by (simp add: first_max_def)
    moreover have "[x] ! 0 = Fin m" using Fin by simp
    ultimately have "first_max ([x] @ rest) (argmax_loop (Fin m) 0 (length [x]) rest)"
      by (rule argmax_loop_first_max)
    with xs Fin show ?thesis by (simp add: np_argmax_def)
  qed
qed

lemma first_max_cong:
  assumes "length xs = length ys"
    and "\<forall>i<length xs. \<forall>j<length xs. score_le (xs ! i) (xs ! j) = score_le (ys ! i) (ys ! j)"
  shows "first_max xs k = first_max ys k"
  using assms unfolding first_max_def
  by (metis (no_types, lifting) less_trans)

lemma np_argmax_cong:
  assumes "xs \<noteq> []" and "length xs = length ys"
    and "\<forall>i<length xs. \<forall>j<length xs. score_le (xs ! i) (xs ! j) = score_le (ys ! i) (ys ! j)"
  shows "np_argmax xs = np_argmax ys"
proof -
  from assms have "ys \<noteq> []" by auto
  from np_argmax_first_max [OF assms(1)] obtain k where k: "np_argmax xs = Inr k" "first_max xs k" by blast
  from np_argmax_first_max [OF \<open>ys \<noteq> []\<close>] obtain k' where k': "np_argmax ys = Inr k'" "first_max ys k'" by blast
  from k'(2) have "first_max xs k'" using first_max_cong [OF assms(2,3)] by simp
  with k(2) have "k = k'" by (rule first_max_unique)
  with k k' show ?thesis by simp
qed

subsection \<open>What \<^verbatim>\<open>choose_price\<close> returns on the main path\<close>

lemma price_row_of [simp]: "price (row_of art iid wd mo ev mm al sigma p) = p"
  by (simp add: row_of_def)

lemma filter_price_hd:
  assumes "v \<in> set g" and "\<And>p. price (f p) = p"
  shows "\<exists>rest. filter (\<lambda>r. price r = v) (map f g) = f v # rest"
  using assms(1)
proof (induction g)
  case Nil
  then show ?case by simp
next
  case (Cons p ps)
  then show ?case by (cases "p = v") (auto simp: assms(2))
qed

lemma choose_price_decides:
  assumes pre: "preconditions_pass art py_float item min_margin iid g mm"
    and pos: "\<forall>p\<in>set g. \<not> is_blocked mm p \<longrightarrow> 0 < p"
  shows "\<exists>k.
           np_argmax (map (\<lambda>p. ucb (row_of art iid wd mo (of_bool ev) mm (alpha_of explore)
                                       (sigma_of art wd mo ev) p)) g) = Inr k \<and>
           k < length g \<and>
           choose_price art py_float item wd mo ev min_margin explore tr =
             (Inr (Decision
                \<lparr>grid = g, chosen_price = g ! k, arm_index = k,
                 scores_ucb = map (\<lambda>p. ucb (row_of art iid wd mo (of_bool ev) mm (alpha_of explore)
                                       (sigma_of art wd mo ev) p)) g,
                 rows = map (row_of art iid wd mo (of_bool ev) mm (alpha_of explore)
                               (sigma_of art wd mo ev)) g,
                 best_row = row_of art iid wd mo (of_bool ev) mm (alpha_of explore)
                               (sigma_of art wd mo ev) (g ! k),
                 penalized = (\<exists>p\<in>set g. is_blocked mm p),
                 guardrail = mm, alpha = alpha_of explore\<rparr>),
              snd (score_loop art iid wd mo (of_bool ev) mm (alpha_of explore)
                     (sigma_of art wd mo ev) g [] [] False tr))"
proof -
  let ?row = "row_of art iid wd mo (of_bool ev) mm (alpha_of explore) (sigma_of art wd mo ev)"
  let ?scores = "map (\<lambda>p. ucb (?row p)) g"
  from pre have item: "item = Some iid" "iid \<noteq> []" and g: "grid_of art iid = g" "2 \<le> length g"
    and mm: "parse_min_margin py_float min_margin = Some mm"
    by (auto simp: preconditions_pass_def)
  from g have ne: "g \<noteq> []" "\<not> length g < 2" by auto
  define tr' where
    "tr' = snd (score_loop art iid wd mo (of_bool ev) mm (alpha_of explore)
                  (sigma_of art wd mo ev) g [] [] False tr)"
  have loop:
    "score_loop art iid wd mo (of_bool ev) mm (alpha_of explore) (sigma_of art wd mo ev) g [] [] False tr =
       (Inr (map ?row g, ?scores, \<exists>p\<in>set g. is_blocked mm p), tr')"
    using score_loop_ok [OF pos, of art iid wd mo "of_bool ev" "alpha_of explore" "sigma_of art wd mo ev" "[]" "[]" False tr]
    by (simp add: prod_eq_iff tr'_def)
  from ne have "?scores \<noteq> []" by simp
  from np_argmax_first_max [OF this] obtain k where k: "np_argmax ?scores = Inr k" "first_max ?scores k"
    by blast
  from k(2) have klt: "k < length g" by (simp add: first_max_def)
  then have "g ! k \<in> set g" by simp
  from filter_price_hd [OF this, of ?row] obtain rest where
    best: "filter (\<lambda>r. price r = g ! k) (map ?row g) = ?row (g ! k) # rest"
    by auto
  have "choose_price art py_float item wd mo ev min_margin explore tr =
      (Inr (Decision
                \<lparr>grid = g, chosen_price = g ! k, arm_index = k,
                 scores_ucb = ?scores, rows = map ?row g, best_row = ?row (g ! k),
                 penalized = (\<exists>p\<in>set g. is_blocked mm p),
                 guardrail = mm, alpha = alpha_of explore\<rparr>), tr')"
    unfolding choose_price_def
    using item g ne mm loop k(1) klt best
    by (simp add: Let_def sigma_of_def [symmetric] alpha_of_def [symmetric])
  with k(1) klt show ?thesis unfolding tr'_def by blast
qed

lemma choose_price_raises:
  assumes pre: "preconditions_pass art py_float item min_margin iid g mm"
    and bad: "\<exists>p\<in>set g. \<not> is_blocked mm p \<and> p \<le> 0"
  shows "fst (choose_price art py_float item wd mo ev min_margin explore tr) = Inl MathDomainError"
proof -
  from pre have item: "item = Some iid" "iid \<noteq> []" and g: "grid_of art iid = g" "2 \<le> length g"
    and mm: "parse_min_margin py_float min_margin = Some mm"
    by (auto simp: preconditions_pass_def)
  from g have ne: "g \<noteq> []" "\<not> length g < 2" by auto
  obtain tr' where loop:
    "score_loop art iid wd mo (of_bool ev) mm (alpha_of explore) (sigma_of art wd mo ev) g [] [] False tr =
       (Inl MathDomainError, tr')"
    using score_loop_raises [OF bad, of art iid wd mo "of_bool ev" "alpha_of explore" "sigma_of art wd mo ev" "[]" "[]" False tr]
    by (cases "score_loop art iid wd mo (of_bool ev) mm (alpha_of explore) (sigma_of art wd mo ev) g [] [] False tr") simp
  show ?thesis
    unfolding choose_price_def
    using item g ne mm loop
    by (simp add: Let_def sigma_of_def [symmetric] alpha_of_def [symmetric])
qed

subsection \<open>Scores, the two outcomes of the main path, and the guardrail input\<close>

lemma np_sqrt_cases:
  obtains "np_sqrt x = NaN" | s where "np_sqrt x = Fin s" and "0 \<le> s"
  by (cases "x < 0") (auto simp: np_sqrt_def)

lemma qty_val_nonneg: "0 \<le> qty_val art iid wd mo ev p"
  by (simp add: qty_val_def)

lemma unblocked_score_above_sentinel:
  assumes "\<not> is_blocked mm p" and "0 < p"
  shows "\<not> score_le (ucb (row_of art iid wd mo ev' mm (alpha_of explore) (sigma_of art wd mo ev) p))
                     (Fin (- 1000000000))"
proof -
  consider (nan) "sigma_of art wd mo ev = NaN"
    | (fin) s where "sigma_of art wd mo ev = Fin s" and "0 \<le> s"
    unfolding sigma_of_def by (rule np_sqrt_cases)
  then show ?thesis
  proof cases
    case nan
    with assms show ?thesis by (simp add: row_of_def)
  next
    case (fin s)
    have "0 \<le> p * qty_val art iid wd mo ev' p"
      using assms(2) qty_val_nonneg [of art iid wd mo ev' p] by simp
    moreover have "0 \<le> alpha_of explore * s"
      using fin(2) by (simp add: alpha_of_def)
    ultimately have "0 \<le> p * qty_val art iid wd mo ev' p + alpha_of explore * s" by simp
    with assms fin(1) show ?thesis by (simp add: row_of_def)
  qed
qed

lemma blocked_score: "is_blocked mm p \<Longrightarrow> ucb (row_of art iid wd mo ev mm al sigma p) = Fin (- 1000000000)"
  by (simp add: row_of_def)

lemma choose_price_cases:
  assumes pre: "preconditions_pass art py_float item min_margin iid g mm"
  obtains (decides) d where
      "\<forall>p\<in>set g. \<not> is_blocked mm p \<longrightarrow> 0 < p"
      "choose_price art py_float item wd mo ev min_margin explore tr =
         (Inr (Decision d),
          snd (score_loop art iid wd mo (of_bool ev) mm (alpha_of explore)
                 (sigma_of art wd mo ev) g [] [] False tr))"
      "grid d = g"
      "rows d = map (row_of art iid wd mo (of_bool ev) mm (alpha_of explore)
                       (sigma_of art wd mo ev)) g"
      "scores_ucb d = map (\<lambda>p. ucb (row_of art iid wd mo (of_bool ev) mm (alpha_of explore)
                                       (sigma_of art wd mo ev) p)) g"
      "first_max (scores_ucb d) (arm_index d)"
      "arm_index d < length g"
      "chosen_price d = g ! arm_index d"
      "penalized d = (\<exists>p\<in>set g. is_blocked mm p)"
  | (raises)
      "\<exists>p\<in>set g. \<not> is_blocked mm p \<and> p \<le> 0"
      "fst (choose_price art py_float item wd mo ev min_margin explore tr) = Inl MathDomainError"
proof (cases "\<forall>p\<in>set g. \<not> is_blocked mm p \<longrightarrow> 0 < p")
  case True
  let ?row = "row_of art iid wd mo (of_bool ev) mm (alpha_of explore) (sigma_of art wd mo ev)"
  let ?scores = "map (\<lambda>p. ucb (?row p)) g"
  from pre have "?scores \<noteq> []" by (auto simp: preconditions_pass_def)
  from np_argmax_first_max [OF this] obtain k' where
    k': "np_argmax ?scores = Inr k'" "first_max ?scores k'"
    by blast
  define d where
    "d = \<lparr>grid = g, chosen_price = g ! k', arm_index = k', scores_ucb = ?scores,
          rows = map ?row g, best_row = ?row (g ! k'),
          penalized = (\<exists>p\<in>set g. is_blocked mm p),
          guardrail = mm, alpha = alpha_of explore\<rparr>"
  from choose_price_decides [OF pre True, where wd = wd and ev = ev and explore = explore
      and mo = mo and tr = tr] k'(1)
  have run: "choose_price art py_float item wd mo ev min_margin explore tr =
         (Inr (Decision d),
          snd (score_loop art iid wd mo (of_bool ev) mm (alpha_of explore)
                 (sigma_of art wd mo ev) g [] [] False tr))"
    and klt: "k' < length g"
    unfolding d_def by auto
  show ?thesis
  proof (rule decides [of d])
    show "first_max (scores_ucb d) (arm_index d)" using k'(2) by (simp add: d_def)
    show "arm_index d < length g" using klt by (simp add: d_def)
  qed (use True run in \<open>simp_all add: d_def\<close>)
next
  case False
  then have bad: "\<exists>p\<in>set g. \<not> is_blocked mm p \<and> p \<le> 0" by (auto simp: not_less)
  from choose_price_raises [OF pre bad] bad show ?thesis by (intro raises) auto
qed

lemma first_max_ge: "first_max xs k \<Longrightarrow> j < length xs \<Longrightarrow> score_le (xs ! j) (xs ! k)"
  by (simp add: first_max_def)

lemma first_max_before: "first_max xs k \<Longrightarrow> j < k \<Longrightarrow> \<not> score_le (xs ! k) (xs ! j)"
  by (simp add: first_max_def)

lemma not_score_le_Fin: "\<not> score_le u (Fin s) \<Longrightarrow> score_le (Fin s) u"
  by (cases u) simp_all

lemma is_blocked_iff: "is_blocked mm p \<longleftrightarrow> (\<exists>v. mm = Some v \<and> price_below p v)"
  by (cases mm) (simp_all add: is_blocked_def)

lemma strip_not_space: "strip s \<noteq> codepoints '' ''"
proof
  assume "strip s = codepoints '' ''"
  then have a: "strip s = [32]" by (simp add: codepoints_def)
  define t where "t = dropWhile is_space (rev (dropWhile is_space s))"
  from a have "rev t = [32]" by (simp add: strip_def t_def)
  then have "t = [32]" by (metis rev_rev_ident rev_singleton_conv)
  then have "t \<noteq> []" and "is_space (hd t)" by (simp_all add: is_space_def)
  moreover have "t \<noteq> [] \<Longrightarrow> \<not> is_space (hd t)"
    unfolding t_def by (rule hd_dropWhile)
  ultimately show False by blast
qed

text \<open>
  An input of whitespace only is no guardrail, whatever the whitespace: here a no-break
  space, an em space and a space.
\<close>

lemma whitespace_margin_is_no_guardrail:
  "parse_min_margin py_float (Some [0xA0, 0x2003, 0x20]) = Some None"
  by (simp add: parse_min_margin_def strip_def is_space_def codepoints_def)

lemma parse_min_margin_not_numeric:
  assumes "strip s \<noteq> []" and "py_float (strip s) = None"
  shows "parse_min_margin py_float (Some s) = None"
  using assms strip_not_space [of s] by (simp add: parse_min_margin_def codepoints_def)

subsection \<open>The fixture passes the preconditions\<close>

lemmas demo_defs =
  choose_price_def grid_of_def demo_art_def demo_grids_def demo_float_def demo_predict_def
  parse_min_margin_def strip_def is_space_def codepoints_def np_sqrt_def np_argmax_def
  expected_revenue_def expected_qty_def is_blocked_def Let_def

lemma demo_pre_no_guardrail:
  "preconditions_pass demo_art demo_float (Some ''FOODS_1_001'') None
     ''FOODS_1_001'' [2, 5 / 2, 3] None"
  by (simp add: preconditions_pass_def demo_defs)

lemma demo_pre_guardrail:
  "preconditions_pass demo_art demo_float (Some ''FOODS_1_001'') (Some (codepoints ''2.75''))
     ''FOODS_1_001'' [2, 5 / 2, 3] (Some (FNum (11 / 4)))"
  by (simp add: preconditions_pass_def demo_defs)

lemma demo_pre_high_guardrail:
  "preconditions_pass demo_art demo_float (Some ''FOODS_1_001'') (Some (codepoints ''5''))
     ''FOODS_1_001'' [2, 5 / 2, 3] (Some (FNum 5))"
  by (simp add: preconditions_pass_def demo_defs)

section \<open>The claims\<close>

text \<open>
  In the statements below a run of \<^verbatim>\<open>choose_price\<close> on the main path has two possible
  ends: it returns a decision, or \<^verbatim>\<open>math.log\<close> raises on a price that is not positive
  and not blocked by the guardrail. Where a claim does not assume positive prices, the
  statement names both ends.
\<close>

subsection \<open>C1: a blocked candidate does not win against an eligible one\<close>

text \<open>
  C1. For every request in which all preconditions pass, every grid price is positive and
  at least one candidate is not blocked by the guardrail, \<^verbatim>\<open>choose_price\<close> returns a
  decision, and the candidate it selects (\<open>arm_index\<close>, the chosen index) is not
  blocked: a blocked candidate never wins the arg-max unless all candidates are blocked.
\<close>

theorem chosen_candidate_not_blocked:
  assumes "preconditions_pass art py_float item min_margin iid g mm"
    and "\<forall>p\<in>set g. 0 < p"
    and "\<exists>p\<in>set g. \<not> is_blocked mm p"
  shows "\<exists>d tr'. choose_price art py_float item wd mo ev min_margin explore tr = (Inr (Decision d), tr') \<and>
           arm_index d < length g \<and> chosen_price d = g ! arm_index d \<and>
           \<not> is_blocked mm (g ! arm_index d)"
proof -
  let ?row = "row_of art iid wd mo (of_bool ev) mm (alpha_of explore) (sigma_of art wd mo ev)"
  let ?scores = "map (\<lambda>p. ucb (?row p)) g"
  from assms(2) have pos: "\<forall>p\<in>set g. \<not> is_blocked mm p \<longrightarrow> 0 < p" by simp
  from choose_price_decides [OF assms(1) pos, where wd = wd and ev = ev and explore = explore and mo = mo and tr = tr]
  obtain k d tr' where k: "np_argmax ?scores = Inr k" "k < length g"
    and res: "choose_price art py_float item wd mo ev min_margin explore tr = (Inr (Decision d), tr')"
    and d: "arm_index d = k" "chosen_price d = g ! k"
    by force
  from assms(1) have "?scores \<noteq> []" by (auto simp: preconditions_pass_def)
  from np_argmax_first_max [OF this] k(1) have fm: "first_max ?scores k" by simp
  have "\<not> is_blocked mm (g ! k)"
  proof
    assume blocked: "is_blocked mm (g ! k)"
    from assms(3) obtain j where j: "j < length g" "\<not> is_blocked mm (g ! j)"
      by (auto simp: in_set_conv_nth)
    from j(1) assms(2) have "0 < g ! j" by simp
    from unblocked_score_above_sentinel [OF j(2) this]
    have "\<not> score_le (?scores ! j) (Fin (- 1000000000))" using j(1) by simp
    moreover from fm j(1) k(2) have "score_le (?scores ! j) (?scores ! k)"
      by (simp add: first_max_def split del: split_of_bool)
    moreover have "?scores ! k = Fin (- 1000000000)"
      using k(2) blocked by (simp add: blocked_score)
    ultimately show False by simp
  qed
  with res d k(2) show ?thesis by auto
qed

text \<open>
  The fixture with the guardrail input 2.75 and exploration on: the prices 2.00 and 2.50
  are blocked, 3.00 is not, and index 2 is chosen.
\<close>

theorem chosen_candidate_not_blocked_witness:
  "preconditions_pass demo_art demo_float (Some ''FOODS_1_001'') (Some (codepoints ''2.75''))
     ''FOODS_1_001'' [2, 5 / 2, 3] (Some (FNum (11 / 4))) \<and>
   list_all (\<lambda>p. 0 < p) [2, 5 / 2, 3 :: real] \<and>
   \<not> is_blocked (Some (FNum (11 / 4))) 3 \<and>
   (\<exists>d tr'. choose_price demo_art demo_float (Some ''FOODS_1_001'') ''Friday'' 11 False
               (Some (codepoints ''2.75'')) True [] = (Inr (Decision d), tr') \<and>
      arm_index d = 2 \<and> chosen_price d = 3 \<and> \<not> is_blocked (Some (FNum (11 / 4))) (chosen_price d))"
proof -
  have pos: "\<forall>p\<in>set [2, 5 / 2, 3 :: real]. 0 < p" by simp
  have ex: "\<exists>p\<in>set [2, 5 / 2, 3 :: real]. \<not> is_blocked (Some (FNum (11 / 4))) p"
    by (simp add: is_blocked_def)
  from chosen_candidate_not_blocked [OF demo_pre_guardrail pos ex,
      where wd = "''Friday''" and mo = 11 and ev = False and explore = True and tr = "[]"]
  show ?thesis
    using demo_pre_guardrail by (simp add: demo_defs)
qed

subsection \<open>C2: the exploration flag does not change the choice\<close>

text \<open>
  C2. For every request with no guardrail set in which all preconditions pass, the chosen
  index and the chosen price are the same whether the exploration flag is true or false:
  in exact arithmetic the term \<open>alpha * sigma\<close> is the same for every candidate and
  changes neither the arg-max nor its first-occurrence tie-break. (Where a price is not
  positive, both runs raise.)
\<close>

theorem explore_flag_does_not_change_choice:
  assumes "preconditions_pass art py_float item min_margin iid g None"
  shows "(\<exists>d1 d2 tr1 tr2.
            choose_price art py_float item wd mo ev min_margin True tr = (Inr (Decision d1), tr1) \<and>
            choose_price art py_float item wd mo ev min_margin False tr = (Inr (Decision d2), tr2) \<and>
            arm_index d1 = arm_index d2 \<and> chosen_price d1 = chosen_price d2)
       \<or> (fst (choose_price art py_float item wd mo ev min_margin True tr) = Inl MathDomainError \<and>
          fst (choose_price art py_float item wd mo ev min_margin False tr) = Inl MathDomainError \<and>
          (\<exists>p\<in>set g. p \<le> 0))"
  using assms
proof (cases rule: choose_price_cases [where wd = wd and ev = ev and explore = True and mo = mo and tr = tr])
  case (decides d1)
  define evi :: int where "evi = of_bool ev"
  note s1 = decides(5) [folded evi_def]
  from assms show ?thesis
  proof (cases rule: choose_price_cases [where wd = wd and ev = ev and explore = False and mo = mo and tr = tr])
    case inner: (decides d2)
    note s2 = inner(5) [folded evi_def]
    have "first_max (scores_ucb d1) k = first_max (scores_ucb d2) k" for k
    proof (rule first_max_cong)
      show "length (scores_ucb d1) = length (scores_ucb d2)" by (simp add: s1 s2)
      show "\<forall>i<length (scores_ucb d1). \<forall>j<length (scores_ucb d1).
              score_le (scores_ucb d1 ! i) (scores_ucb d1 ! j) =
              score_le (scores_ucb d2 ! i) (scores_ucb d2 ! j)"
        by (cases "sigma_of art wd mo ev")
           (simp_all add: s1 s2 row_of_def is_blocked_def)
    qed
    with inner(6) have "first_max (scores_ucb d1) (arm_index d2)" by simp
    with decides(6) have "arm_index d1 = arm_index d2" by (rule first_max_unique)
    with decides(2,8) inner(2,8) show ?thesis by auto
  next
    case raises
    with decides(1) show ?thesis by (auto simp: not_le)
  qed
next
  case raises
  from raises(1) have bad: "\<exists>p\<in>set g. p \<le> 0" by blast
  from choose_price_raises [OF assms raises(1)] bad show ?thesis by simp
qed

text \<open>
  The fixture without guardrail: the scores are 20.8, 20.8, 15.8 with exploration and
  20, 20, 15 without, and both runs choose index 0, the price 2.00.
\<close>

theorem explore_flag_does_not_change_choice_witness:
  "preconditions_pass demo_art demo_float (Some ''FOODS_1_001'') None
     ''FOODS_1_001'' [2, 5 / 2, 3] None \<and>
   (\<exists>d1 d2 tr1 tr2.
      choose_price demo_art demo_float (Some ''FOODS_1_001'') ''Friday'' 11 False None True [] =
        (Inr (Decision d1), tr1) \<and>
      choose_price demo_art demo_float (Some ''FOODS_1_001'') ''Friday'' 11 False None False [] =
        (Inr (Decision d2), tr2) \<and>
      scores_ucb d1 = [Fin (104 / 5), Fin (104 / 5), Fin (79 / 5)] \<and>
      scores_ucb d2 = [Fin 20, Fin 20, Fin 15] \<and>
      arm_index d1 = 0 \<and> arm_index d2 = 0 \<and> chosen_price d1 = 2 \<and> chosen_price d2 = 2)"
  using explore_flag_does_not_change_choice [OF demo_pre_no_guardrail,
      where wd = "''Friday''" and mo = 11 and ev = False and tr = "[]"]
    demo_pre_no_guardrail
  by (simp add: demo_defs)

subsection \<open>C3: a guardrail above the whole grid\<close>

text \<open>
  C3. For every request in which all preconditions pass and the guardrail is a number
  strictly greater than every price of the grid, \<^verbatim>\<open>choose_price\<close> returns a decision and does
  not raise: every candidate is the blocked row with the sentinel score, \<^verbatim>\<open>penalized\<close>
  (guardrail applied) is true, and the chosen candidate is the first grid entry, index 0.
  The trace is returned unchanged: the predictor is not called.
\<close>

theorem guardrail_above_whole_grid:
  assumes "preconditions_pass art py_float item min_margin iid g (Some (FNum m))"
    and "\<forall>p\<in>set g. p < m"
  shows "\<exists>d. choose_price art py_float item wd mo ev min_margin explore tr = (Inr (Decision d), tr) \<and>
           rows d = map (\<lambda>p. \<lparr>price = p, exp_qty = 0, exp_rev = - 1000000000,
                                ucb = Fin (- 1000000000)\<rparr>) g \<and>
           scores_ucb d = map (\<lambda>p. Fin (- 1000000000)) g \<and>
           penalized d \<and> arm_index d = 0 \<and> chosen_price d = g ! 0"
  using assms(1)
proof (cases rule: choose_price_cases [where wd = wd and ev = ev and explore = explore and mo = mo and tr = tr])
  case (decides d)
  define evi :: int where "evi = of_bool ev"
  note rws = decides(4) [folded evi_def] and scores = decides(5) [folded evi_def]
  from assms(2) have all: "\<forall>p\<in>set g. is_blocked (Some (FNum m)) p"
    by (simp add: is_blocked_def)
  from assms(1) have ne: "g \<noteq> []" by (auto simp: preconditions_pass_def)
  have tr: "snd (score_loop art iid wd mo (of_bool ev) (Some (FNum m)) (alpha_of explore)
                 (sigma_of art wd mo ev) g [] [] False tr) = tr"
    using all by (rule score_loop_no_calls)
  have r: "rows d = map (\<lambda>p. \<lparr>price = p, exp_qty = 0, exp_rev = - 1000000000,
                                ucb = Fin (- 1000000000)\<rparr>) g"
    unfolding rws using all by (simp add: row_of_def)
  have s: "scores_ucb d = map (\<lambda>p. Fin (- 1000000000)) g"
    unfolding scores using all by (simp add: row_of_def)
  have "first_max (scores_ucb d) 0"
    unfolding s using ne by (simp add: first_max_def)
  with decides(6) have k: "arm_index d = 0" by (rule first_max_unique)
  have pen: "penalized d" using decides(9) all ne by (cases g) auto
  from decides(2) tr r s pen k decides(8) show ?thesis by simp
next
  case raises
  with assms(2) show ?thesis by (auto simp: is_blocked_def)
qed

text \<open>The fixture with the guardrail input 5, above the three prices.\<close>

theorem guardrail_above_whole_grid_witness:
  "preconditions_pass demo_art demo_float (Some ''FOODS_1_001'') (Some (codepoints ''5''))
     ''FOODS_1_001'' [2, 5 / 2, 3] (Some (FNum 5)) \<and>
   list_all (\<lambda>p. p < 5) [2, 5 / 2, 3 :: real] \<and>
   (\<exists>d. choose_price demo_art demo_float (Some ''FOODS_1_001'') ''Friday'' 11 False
               (Some (codepoints ''5'')) True [] = (Inr (Decision d), []) \<and>
      scores_ucb d = [Fin (- 1000000000), Fin (- 1000000000), Fin (- 1000000000)] \<and>
      penalized d \<and> arm_index d = 0 \<and> chosen_price d = 2)"
proof -
  have below: "\<forall>p\<in>set [2, 5 / 2, 3 :: real]. p < 5" by simp
  from guardrail_above_whole_grid [OF demo_pre_high_guardrail below,
      where wd = "''Friday''" and mo = 11 and ev = False and explore = True and tr = "[]"]
  show ?thesis
    using demo_pre_high_guardrail by (simp add: demo_defs)
qed

subsection \<open>C4: which grids are rejected\<close>

text \<open>
  C4 as stated: an item whose grid has fewer than 2 distinct prices, for example two equal
  entries, is rejected with the no-usable-grid outcome. The code counts entries, not
  distinct prices (line 67 tests \<^verbatim>\<open>len(grid) < 2\<close>, as the filter of line 43 does):
  the grid 2.00, 2.00 has one distinct price and is scored, and a decision is returned.
\<close>

theorem duplicate_grid_counterexample:
  "card (set [2, 2 :: real]) < 2 \<and>
   price_grid demo_art ''FOODS_1_002'' = Some [2, 2] \<and>
   fst (choose_price demo_art demo_float (Some ''FOODS_1_002'') ''Friday'' 11 False None False []) =
     Inr (Decision
       \<lparr>grid = [2, 2], chosen_price = 2, arm_index = 0, scores_ucb = [Fin 20, Fin 20],
        rows = [\<lparr>price = 2, exp_qty = 10, exp_rev = 20, ucb = Fin 20\<rparr>,
                \<lparr>price = 2, exp_qty = 10, exp_rev = 20, ucb = Fin 20\<rparr>],
        best_row = \<lparr>price = 2, exp_qty = 10, exp_rev = 20, ucb = Fin 20\<rparr>,
        penalized = False, guardrail = None, alpha = 0\<rparr>) \<and>
   fst (choose_price demo_art demo_float (Some ''FOODS_1_002'') ''Friday'' 11 False None False []) \<noteq>
     Inr (Rejected ''No usable price grid for FOODS_1_002.'')"
  by (simp add: demo_defs)

text \<open>
  C4, amended. For every request naming an item, \<^verbatim>\<open>choose_price\<close> returns the
  no-usable-grid outcome exactly when the item's grid is missing or has fewer than 2
  entries, counted with repetition.
\<close>

theorem unusable_grid_iff_fewer_than_two_entries:
  assumes "item = Some iid" and "iid \<noteq> []"
  shows "(fst (choose_price art py_float item wd mo ev min_margin explore tr) =
            Inr (Rejected (''No usable price grid for '' @ iid @ ''.'')))
         = (length (grid_of art iid) < 2)"
proof (cases "length (grid_of art iid) < 2")
  case True
  with assms show ?thesis by (simp add: choose_price_def Let_def)
next
  case False
  then have len: "2 \<le> length (grid_of art iid)" "grid_of art iid \<noteq> []" by auto
  have "fst (choose_price art py_float item wd mo ev min_margin explore tr) \<noteq>
            Inr (Rejected (''No usable price grid for '' @ iid @ ''.''))"
  proof (cases "parse_min_margin py_float min_margin")
    case None
    with assms len False show ?thesis by (simp add: choose_price_def Let_def)
  next
    case (Some mm)
    with assms len have "preconditions_pass art py_float item min_margin iid (grid_of art iid) mm"
      by (simp add: preconditions_pass_def)
    then show ?thesis
      by (cases rule: choose_price_cases [where wd = wd and ev = ev and explore = explore
            and mo = mo and tr = tr]) simp_all
  qed
  with False show ?thesis by simp
qed

text \<open>
  The item with the one-entry grid is rejected; the item with the grid 2.00, 2.00 is not.
\<close>

theorem unusable_grid_iff_fewer_than_two_entries_witness:
  "Some ''FOODS_1_003'' = Some ''FOODS_1_003'' \<and> ''FOODS_1_003'' \<noteq> [] \<and>
   length (grid_of demo_art ''FOODS_1_003'') < 2 \<and>
   fst (choose_price demo_art demo_float (Some ''FOODS_1_003'') ''Friday'' 11 False None False []) =
     Inr (Rejected ''No usable price grid for FOODS_1_003.'') \<and>
   length (grid_of demo_art ''FOODS_1_002'') = 2 \<and>
   fst (choose_price demo_art demo_float (Some ''FOODS_1_002'') ''Friday'' 11 False None False []) \<noteq>
     Inr (Rejected ''No usable price grid for FOODS_1_002.'')"
  using unusable_grid_iff_fewer_than_two_entries [of "Some ''FOODS_1_003''" "''FOODS_1_003''"
      demo_art demo_float "''Friday''" 11 False None False "[]"]
    unusable_grid_iff_fewer_than_two_entries [of "Some ''FOODS_1_002''" "''FOODS_1_002''"
      demo_art demo_float "''Friday''" 11 False None False "[]"]
  by (simp add: grid_of_def demo_art_def demo_grids_def)

subsection \<open>C5: an unusable grid is rejected before any predictor call\<close>

text \<open>
  C5. For every request naming an item whose grid is missing or has fewer than 2 entries,
  \<^verbatim>\<open>choose_price\<close> returns the no-usable-grid outcome (empty result fields and the
  message "No usable price grid for ...") and makes no call to the demand predictor: the
  trace of calls to \<^verbatim>\<open>expected_revenue\<close>, \<^verbatim>\<open>expected_qty\<close> and the model is
  returned unchanged.
\<close>

theorem unusable_grid_rejected_without_calls:
  assumes "item = Some iid" and "iid \<noteq> []"
    and "price_grid art iid = None \<or> (\<exists>g. price_grid art iid = Some g \<and> length g < 2)"
  shows "choose_price art py_float item wd mo ev min_margin explore tr =
           (Inr (Rejected (''No usable price grid for '' @ iid @ ''.'')), tr)"
proof -
  from assms(3) have "length (grid_of art iid) < 2" by (auto simp: grid_of_def)
  with assms(1,2) show ?thesis by (simp add: choose_price_def Let_def)
qed

text \<open>An item with a one-entry grid, and an item the grid store does not know.\<close>

theorem unusable_grid_rejected_without_calls_witness:
  "''FOODS_1_003'' \<noteq> [] \<and> price_grid demo_art ''FOODS_1_003'' = Some [2] \<and>
   choose_price demo_art demo_float (Some ''FOODS_1_003'') ''Friday'' 11 False None True [] =
     (Inr (Rejected ''No usable price grid for FOODS_1_003.''), []) \<and>
   price_grid demo_art ''FOODS_9_999'' = None \<and>
   choose_price demo_art demo_float (Some ''FOODS_9_999'') ''Friday'' 11 False None True [] =
     (Inr (Rejected ''No usable price grid for FOODS_9_999.''), [])"
  using unusable_grid_rejected_without_calls [of "Some ''FOODS_1_003''" "''FOODS_1_003''"
      demo_art demo_float "''Friday''" 11 False None True "[]"]
    unusable_grid_rejected_without_calls [of "Some ''FOODS_9_999''" "''FOODS_9_999''"
      demo_art demo_float "''Friday''" 11 False None True "[]"]
  by (simp add: demo_art_def demo_grids_def)

subsection \<open>C6: a guardrail input that is not a number\<close>

text \<open>
  C6 as stated: every request whose \<^verbatim>\<open>min_margin\<close> is present (non-empty after
  trimming) but not parseable as a real number gets the outcome "min_margin must be
  numeric.", distinct from the no-usable-grid outcome. It fails in two ways.
  The guardrail input is the third check: a request with the input \<^verbatim>\<open>abc\<close> that names
  an item with a one-entry grid gets the no-usable-grid outcome, and one that names no
  item gets "Pick an item_id.".
  And the test of the code is that \<^verbatim>\<open>float\<close> raises, not that the input is a real
  number: \<^verbatim>\<open>float\<close> reads \<^verbatim>\<open>nan\<close> without raising, the guardrail is nan, no price
  is below it, and the request is scored like one without guardrail.
\<close>

theorem margin_rejection_counterexample:
  "strip (codepoints ''abc'') = codepoints ''abc'' \<and> demo_float (codepoints ''abc'') = None \<and>
   choose_price demo_art demo_float (Some ''FOODS_1_003'') ''Friday'' 11 False
       (Some (codepoints ''abc'')) True [] =
     (Inr (Rejected ''No usable price grid for FOODS_1_003.''), []) \<and>
   choose_price demo_art demo_float None ''Friday'' 11 False (Some (codepoints ''abc'')) True [] =
     (Inr (Rejected ''Pick an item_id.''), []) \<and>
   Rejected ''No usable price grid for FOODS_1_003.'' \<noteq> Rejected ''min_margin must be numeric.'' \<and>
   Rejected ''Pick an item_id.'' \<noteq> Rejected ''min_margin must be numeric.'' \<and>
   strip (codepoints ''nan'') = codepoints ''nan'' \<and>
   demo_float (codepoints ''nan'') = Some FNan \<and>
   fst (choose_price demo_art demo_float (Some ''FOODS_1_001'') ''Friday'' 11 False
          (Some (codepoints ''nan'')) False []) =
     Inr (Decision
       \<lparr>grid = [2, 5 / 2, 3], chosen_price = 2, arm_index = 0,
        scores_ucb = [Fin 20, Fin 20, Fin 15],
        rows = [\<lparr>price = 2, exp_qty = 10, exp_rev = 20, ucb = Fin 20\<rparr>,
                \<lparr>price = 5 / 2, exp_qty = 8, exp_rev = 20, ucb = Fin 20\<rparr>,
                \<lparr>price = 3, exp_qty = 5, exp_rev = 15, ucb = Fin 15\<rparr>],
        best_row = \<lparr>price = 2, exp_qty = 10, exp_rev = 20, ucb = Fin 20\<rparr>,
        penalized = False, guardrail = Some FNan, alpha = 0\<rparr>)"
  by (simp add: demo_defs)

text \<open>
  C6, amended. For every request that names an item whose grid has at least 2 entries,
  and whose \<^verbatim>\<open>min_margin\<close> is present (non-empty after trimming) and makes
  \<^verbatim>\<open>float\<close> raise, \<^verbatim>\<open>choose_price\<close> returns the outcome "min_margin must be
  numeric." with no candidate scored and no predictor call made (the trace is
  unchanged); this outcome is distinct from the no-usable-grid outcome.
\<close>

theorem non_numeric_margin_rejected_without_calls:
  assumes "item = Some iid" and "iid \<noteq> []" and "2 \<le> length (grid_of art iid)"
    and "min_margin = Some s" and "strip s \<noteq> []" and "py_float (strip s) = None"
  shows "choose_price art py_float item wd mo ev min_margin explore tr =
           (Inr (Rejected ''min_margin must be numeric.''), tr) \<and>
         Rejected ''min_margin must be numeric.'' \<noteq>
           Rejected (''No usable price grid for '' @ iid @ ''.'')"
proof -
  from assms(3) have "grid_of art iid \<noteq> []" "\<not> length (grid_of art iid) < 2" by auto
  moreover have "parse_min_margin py_float (Some s) = None"
    using assms(5,6) by (rule parse_min_margin_not_numeric)
  ultimately show ?thesis using assms(1,2,4)
    by (simp add: choose_price_def Let_def)
qed

text \<open>
  The fixture's item with the guardrail input \<^verbatim>\<open>abc\<close> between a no-break space
  (U+00A0) and an em space (U+2003): trimming leaves \<^verbatim>\<open>abc\<close>, on which \<^verbatim>\<open>float\<close>
  raises.
\<close>

theorem non_numeric_margin_rejected_without_calls_witness:
  "''FOODS_1_001'' \<noteq> [] \<and> 2 \<le> length (grid_of demo_art ''FOODS_1_001'') \<and>
   strip (0xA0 # codepoints ''abc'' @ [0x2003]) = codepoints ''abc'' \<and>
   codepoints ''abc'' \<noteq> [] \<and> demo_float (codepoints ''abc'') = None \<and>
   choose_price demo_art demo_float (Some ''FOODS_1_001'') ''Friday'' 11 False
       (Some (0xA0 # codepoints ''abc'' @ [0x2003])) True [] =
     (Inr (Rejected ''min_margin must be numeric.''), [])"
  using non_numeric_margin_rejected_without_calls [of "Some ''FOODS_1_001''" "''FOODS_1_001''"
      demo_art "Some (0xA0 # codepoints ''abc'' @ [0x2003])" "0xA0 # codepoints ''abc'' @ [0x2003]"
      demo_float "''Friday''" 11 False True "[]"]
  by (simp add: grid_of_def demo_art_def demo_grids_def demo_float_def strip_def is_space_def
        codepoints_def)

subsection \<open>C7: the guardrail blocks the prices strictly below it\<close>

text \<open>
  C7. For every grid price \<open>p\<close> of a request in which all preconditions pass, the
  candidate for \<open>p\<close> carries the blocked mark (the sentinel \<open>- 10^9\<close> as expected revenue
  and as score) if and only if a guardrail \<open>v\<close> is set and \<open>p < v\<close> (for a number \<open>m\<close>
  that is \<open>p < m\<close>; every price is below infinity and none below nan); the comparison is
  strict, a price equal to the guardrail stays eligible; a blocked candidate records the
  expected quantity 0 and the sentinel as expected revenue and score. In particular, with
  the grid 2.00, 2.50, 3.00 and the guardrail 2.75 the candidates at 2.00 and 2.50 are
  blocked and the chosen price is 3.00.
\<close>

theorem guardrail_blocks_strictly_below:
  assumes "preconditions_pass art py_float item min_margin iid g mm"
  shows "((\<exists>d tr'. choose_price art py_float item wd mo ev min_margin explore tr = (Inr (Decision d), tr') \<and>
             length (rows d) = length g \<and> length (scores_ucb d) = length g \<and>
             (\<forall>i<length g.
                price (rows d ! i) = g ! i \<and>
                ((exp_rev (rows d ! i) = - 1000000000) =
                   (\<exists>v. mm = Some v \<and> price_below (g ! i) v)) \<and>
                ((scores_ucb d ! i = Fin (- 1000000000)) =
                   (\<exists>v. mm = Some v \<and> price_below (g ! i) v)) \<and>
                ((\<exists>v. mm = Some v \<and> price_below (g ! i) v) \<longrightarrow>
                   exp_qty (rows d ! i) = 0 \<and> ucb (rows d ! i) = Fin (- 1000000000)) \<and>
                (mm = Some (FNum (g ! i)) \<longrightarrow>
                   exp_rev (rows d ! i) \<noteq> - 1000000000 \<and>
                   scores_ucb d ! i \<noteq> Fin (- 1000000000))))
          \<or> (fst (choose_price art py_float item wd mo ev min_margin explore tr) = Inl MathDomainError \<and>
             (\<exists>p\<in>set g. \<not> is_blocked mm p \<and> p \<le> 0)))
       \<and> (g = [2, 5 / 2, 3] \<and> mm = Some (FNum (11 / 4)) \<longrightarrow>
            (\<exists>d tr'. choose_price art py_float item wd mo ev min_margin explore tr = (Inr (Decision d), tr') \<and>
               exp_rev (rows d ! 0) = - 1000000000 \<and> exp_rev (rows d ! 1) = - 1000000000 \<and>
               exp_rev (rows d ! 2) \<noteq> - 1000000000 \<and> arm_index d = 2 \<and> chosen_price d = 3))"
  using assms
proof (cases rule: choose_price_cases [where wd = wd and ev = ev and explore = explore and mo = mo and tr = tr])
  case (decides d)
  define evi :: int where "evi = of_bool ev"
  let ?row = "row_of art iid wd mo evi mm (alpha_of explore) (sigma_of art wd mo ev)"
  note rws = decides(4) [folded evi_def] and scores = decides(5) [folded evi_def]
  note fm = decides(6)
  have len: "length (rows d) = length g" "length (scores_ucb d) = length g"
    by (simp_all add: rws scores)
  have each: "price (rows d ! i) = g ! i \<and>
                ((exp_rev (rows d ! i) = - 1000000000) = is_blocked mm (g ! i)) \<and>
                ((scores_ucb d ! i = Fin (- 1000000000)) = is_blocked mm (g ! i)) \<and>
                (is_blocked mm (g ! i) \<longrightarrow>
                   exp_qty (rows d ! i) = 0 \<and> ucb (rows d ! i) = Fin (- 1000000000)) \<and>
                (mm = Some (FNum (g ! i)) \<longrightarrow>
                   exp_rev (rows d ! i) \<noteq> - 1000000000 \<and>
                   scores_ucb d ! i \<noteq> Fin (- 1000000000))"
    if i: "i < length g" for i
  proof (cases "is_blocked mm (g ! i)")
    case True
    then have "mm \<noteq> Some (FNum (g ! i))" by (auto simp: is_blocked_def)
    with True i show ?thesis by (simp add: rws scores row_of_def)
  next
    case False
    from i have "g ! i \<in> set g" by simp
    with decides(1) False have pos: "0 < g ! i" by blast
    then have "0 \<le> g ! i * qty_val art iid wd mo evi (g ! i)"
      using qty_val_nonneg [of art iid wd mo evi "g ! i"] by simp
    then have er: "exp_rev (rows d ! i) \<noteq> - 1000000000"
      using i False by (simp add: rws row_of_def)
    have "\<not> score_le (scores_ucb d ! i) (Fin (- 1000000000))"
      using unblocked_score_above_sentinel [OF False pos, of art iid wd mo evi explore ev] i
      by (simp add: scores)
    then have "scores_ucb d ! i \<noteq> Fin (- 1000000000)"
      using score_le_refl [of "Fin (- 1000000000)"] by metis
    moreover have "price (rows d ! i) = g ! i" using i by (simp add: rws)
    ultimately show ?thesis using er False by blast
  qed
  have scen: "exp_rev (rows d ! 0) = - 1000000000 \<and> exp_rev (rows d ! 1) = - 1000000000 \<and>
               exp_rev (rows d ! 2) \<noteq> - 1000000000 \<and> arm_index d = 2 \<and> chosen_price d = 3"
    if a: "g = [2, 5 / 2, 3] \<and> mm = Some (FNum (11 / 4))"
  proof -
    from a have g: "g = [2, 5 / 2, 3]" and mm: "mm = Some (FNum (11 / 4))" by simp_all
    have e0: "exp_rev (rows d ! 0) = - 1000000000"
      using each [of 0] by (simp add: g mm is_blocked_def)
    have e1: "exp_rev (rows d ! 1) = - 1000000000"
      using each [of 1] by (simp add: g mm is_blocked_def)
    have e2: "exp_rev (rows d ! 2) \<noteq> - 1000000000"
      using each [of 2] by (simp add: g mm is_blocked_def)
    have s0: "scores_ucb d ! 0 = Fin (- 1000000000)"
      using each [of 0] by (simp add: g mm is_blocked_def)
    have s1: "scores_ucb d ! 1 = Fin (- 1000000000)"
      using each [of 1] by (simp add: g mm is_blocked_def)
    have "\<not> is_blocked mm (3::real)" by (simp add: mm is_blocked_def)
    from unblocked_score_above_sentinel [OF this, of art iid wd mo evi explore ev]
    have s2: "\<not> score_le (scores_ucb d ! 2) (Fin (- 1000000000))"
      by (simp add: scores g)
    have l3: "length (scores_ucb d) = 3" using len(2) by (simp add: g)
    have "first_max (scores_ucb d) 2"
      unfolding first_max_def l3
      using s0 s1 s2 not_score_le_Fin [OF s2]
      by (simp add: less_Suc_eq numeral_3_eq_3 numeral_2_eq_2)
    with fm have "arm_index d = 2" by (rule first_max_unique)
    with decides(8) e0 e1 e2 show ?thesis by (simp add: g)
  qed
  from decides(2) len each scen show ?thesis
    unfolding is_blocked_iff [symmetric] by blast
next
  case raises
  have "\<not> (g = [2, 5 / 2, 3] \<and> mm = Some (FNum (11 / 4)))"
    using raises(1) by (auto simp: is_blocked_def)
  with raises show ?thesis by blast
qed

text \<open>The fixture with the guardrail input 2.75 and exploration off.\<close>

theorem guardrail_blocks_strictly_below_witness:
  "preconditions_pass demo_art demo_float (Some ''FOODS_1_001'') (Some (codepoints ''2.75''))
     ''FOODS_1_001'' [2, 5 / 2, 3] (Some (FNum (11 / 4))) \<and>
   (\<exists>d tr'. choose_price demo_art demo_float (Some ''FOODS_1_001'') ''Friday'' 11 False
               (Some (codepoints ''2.75'')) False [] = (Inr (Decision d), tr') \<and>
      rows d = [\<lparr>price = 2, exp_qty = 0, exp_rev = - 1000000000, ucb = Fin (- 1000000000)\<rparr>,
                \<lparr>price = 5 / 2, exp_qty = 0, exp_rev = - 1000000000, ucb = Fin (- 1000000000)\<rparr>,
                \<lparr>price = 3, exp_qty = 5, exp_rev = 15, ucb = Fin 15\<rparr>] \<and>
      scores_ucb d = [Fin (- 1000000000), Fin (- 1000000000), Fin 15] \<and>
      arm_index d = 2 \<and> chosen_price d = 3)"
  using guardrail_blocks_strictly_below [OF demo_pre_guardrail,
      where wd = "''Friday''" and mo = 11 and ev = False and explore = False and tr = "[]"]
    demo_pre_guardrail
  by (simp add: demo_defs)

subsection \<open>C8: the expected quantity is floored at zero\<close>

text \<open>
  C8. For every item, context and positive price, \<^verbatim>\<open>expected_qty\<close> returns exactly
  \<open>max 0 (exp mu - 1)\<close>, where \<open>mu\<close> is the prediction of the opaque model on the
  feature row (log-price, weekday, month, is_event, item_id); so its result is never
  negative, whatever real value \<open>mu\<close> takes.
\<close>

theorem expected_qty_floor:
  assumes "0 < trial_price"
  shows "\<exists>q. fst (expected_qty art iid wd mo ev trial_price tr) = Inr q \<and>
             q = max 0 (exp (model_pipe art \<lparr>log_price = ln trial_price, weekday = wd,
                                month = mo, is_event = ev, item_id = iid\<rparr>) - 1) \<and>
             0 \<le> q"
  using assms by (simp add: expected_qty_def Let_def)

text \<open>
  At the price 2.00 of the fixture the model predicts \<open>ln 11\<close> and the quantity is 10;
  under a model that predicts \<open>- 3\<close> the inverse transform is negative and the floor
  gives 0.
\<close>

theorem expected_qty_floor_witness:
  "(0::real) < 2 \<and>
   fst (expected_qty demo_art ''FOODS_1_001'' ''Friday'' 11 0 2 []) = Inr 10 \<and>
   fst (expected_qty (demo_art\<lparr>model_pipe := \<lambda>r. - 3\<rparr>)
          ''FOODS_1_001'' ''Friday'' 11 0 2 []) = Inr 0"
  using expected_qty_floor [of 2 demo_art "''FOODS_1_001''" "''Friday''" 11 0 "[]"]
    expected_qty_floor [of 2 "demo_art\<lparr>model_pipe := \<lambda>r. - 3\<rparr>"
                          "''FOODS_1_001''" "''Friday''" 11 0 "[]"]
  by (simp add: demo_art_def demo_predict_def)

subsection \<open>C9: the arg-max takes the first maximum\<close>

text \<open>
  C9. For every request in which all preconditions pass, the chosen index is the smallest
  index, in grid order, whose score attains the maximum over all candidates, blocked or
  not: no score is above the chosen one (in the order \<open>score_le\<close>, which is \<open>\<le>\<close> on the
  reals), and every earlier score is strictly below it, so on equal scores the earliest
  index wins. In Scenario A (no guardrail, no exploration, revenues 20, 20, 15 on the
  grid 2.00, 2.50, 3.00) the chosen price is 2.00.
\<close>

theorem chosen_index_first_max:
  assumes "preconditions_pass art py_float item min_margin iid g mm"
  shows "(\<exists>d tr'. choose_price art py_float item wd mo ev min_margin explore tr = (Inr (Decision d), tr') \<and>
            length (scores_ucb d) = length g \<and> arm_index d < length g \<and>
            (\<forall>j<length g. score_le (scores_ucb d ! j) (scores_ucb d ! arm_index d)) \<and>
            (\<forall>j<arm_index d. \<not> score_le (scores_ucb d ! arm_index d) (scores_ucb d ! j)) \<and>
            chosen_price d = g ! arm_index d \<and>
            (g = [2, 5 / 2, 3] \<and> mm = None \<and> \<not> explore \<and> map exp_rev (rows d) = [20, 20, 15]
               \<longrightarrow> arm_index d = 0 \<and> chosen_price d = 2))
       \<or> (fst (choose_price art py_float item wd mo ev min_margin explore tr) = Inl MathDomainError \<and>
          (\<exists>p\<in>set g. \<not> is_blocked mm p \<and> p \<le> 0))"
  using assms
proof (cases rule: choose_price_cases [where wd = wd and ev = ev and explore = explore and mo = mo and tr = tr])
  case (decides d)
  define evi :: int where "evi = of_bool ev"
  let ?row = "row_of art iid wd mo evi mm (alpha_of explore) (sigma_of art wd mo ev)"
  note rws = decides(4) [folded evi_def] and scores = decides(5) [folded evi_def]
  note fm = decides(6)
  have len: "length (scores_ucb d) = length g" by (simp add: scores)
  have ge: "\<forall>j<length g. score_le (scores_ucb d ! j) (scores_ucb d ! arm_index d)"
    using first_max_ge [OF fm] len by metis
  have before: "\<forall>j<arm_index d. \<not> score_le (scores_ucb d ! arm_index d) (scores_ucb d ! j)"
    using first_max_before [OF fm] by blast
  have scen: "arm_index d = 0 \<and> chosen_price d = 2"
    if a: "g = [2, 5 / 2, 3] \<and> mm = None \<and> \<not> explore \<and> map exp_rev (rows d) = [20, 20, 15]"
  proof -
    from a have g: "g = [2, 5 / 2, 3]" and mm: "mm = None" and al: "alpha_of explore = 0"
      and revs: "map exp_rev (rows d) = [20, 20, 15]"
      by (simp_all add: alpha_of_def)
    from revs have er: "2 * qty_val art iid wd mo evi 2 = 20"
      "5 / 2 * qty_val art iid wd mo evi (5 / 2) = 20"
      "3 * qty_val art iid wd mo evi 3 = 15"
      unfolding rws g mm by (simp_all add: row_of_def is_blocked_def)
    have sc: "scores_ucb d =
        [fl_add (Fin 20) (fl_mul (Fin 0) (sigma_of art wd mo ev)),
         fl_add (Fin 20) (fl_mul (Fin 0) (sigma_of art wd mo ev)),
         fl_add (Fin 15) (fl_mul (Fin 0) (sigma_of art wd mo ev))]"
      unfolding scores g mm al using er by (simp add: row_of_def is_blocked_def)
    have "first_max (scores_ucb d) 0"
      unfolding sc
      by (cases "sigma_of art wd mo ev")
         (simp_all add: first_max_def less_Suc_eq numeral_3_eq_3)
    with fm have "arm_index d = 0" by (rule first_max_unique)
    with a decides(8) show ?thesis by simp
  qed
  from decides(2,7,8) len ge before scen show ?thesis by blast
next
  case raises
  then show ?thesis by simp
qed

text \<open>Scenario A on the fixture: the scores are 20, 20, 15 and index 0 is chosen.\<close>

theorem chosen_index_first_max_witness:
  "preconditions_pass demo_art demo_float (Some ''FOODS_1_001'') None
     ''FOODS_1_001'' [2, 5 / 2, 3] None \<and>
   (\<exists>d tr'. choose_price demo_art demo_float (Some ''FOODS_1_001'') ''Friday'' 11 False
               None False [] = (Inr (Decision d), tr') \<and>
      map exp_rev (rows d) = [20, 20, 15] \<and>
      scores_ucb d = [Fin 20, Fin 20, Fin 15] \<and>
      arm_index d = 0 \<and> chosen_price d = 2)"
  using chosen_index_first_max [OF demo_pre_no_guardrail,
      where wd = "''Friday''" and mo = 11 and ev = False and explore = False and tr = "[]"]
    demo_pre_no_guardrail
  by (simp add: demo_defs)

subsection \<open>C10: the decision is well-indexed\<close>

text \<open>
  C10. For every request in which all preconditions pass, the result is well-indexed: the
  list of scores and the list of candidate rows have one entry per grid price, in grid
  order (the prices of the rows are the grid, and the scores are the \<open>ucb\<close> entries of
  the rows, index by index), the chosen index is below the length of the grid, and the
  chosen price is the grid entry at the chosen index.
\<close>

theorem decision_well_indexed:
  assumes "preconditions_pass art py_float item min_margin iid g mm"
  shows "(\<exists>d tr'. choose_price art py_float item wd mo ev min_margin explore tr = (Inr (Decision d), tr') \<and>
            grid d = g \<and> length (scores_ucb d) = length g \<and> length (rows d) = length g \<and>
            map price (rows d) = g \<and> scores_ucb d = map ucb (rows d) \<and>
            arm_index d < length g \<and> chosen_price d = g ! arm_index d)
       \<or> (fst (choose_price art py_float item wd mo ev min_margin explore tr) = Inl MathDomainError \<and>
          (\<exists>p\<in>set g. \<not> is_blocked mm p \<and> p \<le> 0))"
  using assms
proof (cases rule: choose_price_cases [where wd = wd and ev = ev and explore = explore and mo = mo and tr = tr])
  case (decides d)
  have "map price (rows d) = g"
    unfolding decides(4) by (simp add: comp_def split del: split_of_bool)
  moreover have "length (scores_ucb d) = length g" "length (rows d) = length g"
    unfolding decides(4,5) by simp_all
  moreover have "scores_ucb d = map ucb (rows d)"
    unfolding decides(4,5) by (simp add: comp_def split del: split_of_bool)
  ultimately show ?thesis using decides(2,3,7,8) by blast
next
  case raises
  then show ?thesis by simp
qed

text \<open>
  The fixture on an event day, without guardrail and with exploration: the three scores
  differ between the second and the third entry, and they stand in the order of the grid.
\<close>

theorem decision_well_indexed_witness:
  "preconditions_pass demo_art demo_float (Some ''FOODS_1_001'') None
     ''FOODS_1_001'' [2, 5 / 2, 3] None \<and>
   (\<exists>d tr'. choose_price demo_art demo_float (Some ''FOODS_1_001'') ''Friday'' 11 True
               None True [] = (Inr (Decision d), tr') \<and>
      grid d = [2, 5 / 2, 3] \<and> length (scores_ucb d) = 3 \<and> length (rows d) = 3 \<and>
      map price (rows d) = [2, 5 / 2, 3] \<and>
      rows d = [\<lparr>price = 2, exp_qty = 10, exp_rev = 20, ucb = Fin (104 / 5)\<rparr>,
                \<lparr>price = 5 / 2, exp_qty = 8, exp_rev = 20, ucb = Fin (104 / 5)\<rparr>,
                \<lparr>price = 3, exp_qty = 5, exp_rev = 15, ucb = Fin (79 / 5)\<rparr>] \<and>
      scores_ucb d = [Fin (104 / 5), Fin (104 / 5), Fin (79 / 5)] \<and>
      scores_ucb d = map ucb (rows d) \<and> arm_index d = 0 \<and> chosen_price d = 2)"
  using decision_well_indexed [OF demo_pre_no_guardrail,
      where wd = "''Friday''" and mo = 11 and ev = True and explore = True and tr = "[]"]
    demo_pre_no_guardrail
  by (simp add: demo_defs)

end
